theory Spec2Isabelle
  imports Main
begin

section \<open>Values carried by a relation channel\<close>

text \<open>
  The provides side (\<^verbatim>\<open>provides.py\<close>) publishes Python values into the outbound
  relation data \<^verbatim>\<open>to_publish\<close> of the charms.reactive framework, which stores them as
  JSON. The values are modelled as the JSON-shaped fragment of Python: \<^verbatim>\<open>None\<close>,
  booleans, unbounded integers, strings, lists and string-keyed dicts. A dict is an
  association list in insertion order with distinct keys, as a Python dict is.
  Floating-point numbers are left out.
\<close>

datatype pyval =
    PNone
  | PBool bool
  | PInt int
  | PStr string
  | PList "pyval list"
  | PDict "(string \<times> pyval) list"

type_synonym pydict = "(string \<times> pyval) list"

text \<open>Python truthiness, as \<^verbatim>\<open>not data\<close> and \<^verbatim>\<open>v or ""\<close> read it.\<close>

fun truthy :: "pyval \<Rightarrow> bool" where
  "truthy PNone = False"
| "truthy (PBool b) = b"
| "truthy (PInt i) = (i \<noteq> 0)"
| "truthy (PStr s) = (s \<noteq> [])"
| "truthy (PList xs) = (xs \<noteq> [])"
| "truthy (PDict d) = (d \<noteq> [])"

text \<open>\<^verbatim>\<open>a or b\<close>: the first operand when it is truthy, the second otherwise.\<close>

definition py_or :: "pyval \<Rightarrow> pyval \<Rightarrow> pyval" where
  "py_or a b = (if truthy a then a else b)"

text \<open>\<^verbatim>\<open>isinstance(data, dict)\<close>.\<close>

fun isinstance_dict :: "pyval \<Rightarrow> bool" where
  "isinstance_dict (PDict d) = True"
| "isinstance_dict v = False"

text \<open>\<^verbatim>\<open>data.items()\<close> of a dict value (only called after the isinstance test).\<close>

fun dict_items :: "pyval \<Rightarrow> pydict" where
  "dict_items (PDict d) = d"
| "dict_items v = []"

subsection \<open>Dict operations\<close>

text \<open>\<^verbatim>\<open>d[k] = v\<close>: replaces the value in place when the key exists, appends otherwise.\<close>

fun dict_set :: "string \<Rightarrow> pyval \<Rightarrow> pydict \<Rightarrow> pydict" where
  "dict_set k v [] = [(k, v)]"
| "dict_set k v ((k', v') # d) =
     (if k' = k then (k, v) # d else (k', v') # dict_set k v d)"

text \<open>\<^verbatim>\<open>d.update(other)\<close>: one assignment per item of \<^verbatim>\<open>other\<close>, in its order.\<close>

fun dict_update :: "pydict \<Rightarrow> pydict \<Rightarrow> pydict" where
  "dict_update d [] = d"
| "dict_update d ((k, v) # kvs) = dict_update (dict_set k v d) kvs"

text \<open>\<^verbatim>\<open>d.get(k)\<close>: the value, or \<^verbatim>\<open>None\<close> when the key is absent.\<close>

fun dict_get :: "pydict \<Rightarrow> string \<Rightarrow> pyval" where
  "dict_get [] k = PNone"
| "dict_get ((k', v') # d) k = (if k' = k then v' else dict_get d k)"

text \<open>\<^verbatim>\<open>k in d\<close>.\<close>

fun dict_contains :: "pydict \<Rightarrow> string \<Rightarrow> bool" where
  "dict_contains [] k = False"
| "dict_contains ((k', v') # d) k = (k' = k \<or> dict_contains d k)"

text \<open>
  The dict comprehension \<^verbatim>\<open>{k: f(v) for k, v in items}\<close>: starts from the empty dict
  and assigns once per item.
\<close>

fun dict_comprehension :: "(pyval \<Rightarrow> pyval) \<Rightarrow> pydict \<Rightarrow> pydict \<Rightarrow> pydict" where
  "dict_comprehension f acc [] = acc"
| "dict_comprehension f acc ((k, v) # kvs) = dict_comprehension f (dict_set k (f v) acc) kvs"

text \<open>A keyword parameter with a default: \<open>None\<close> when the caller leaves it out.\<close>

fun default_arg :: "pyval \<Rightarrow> pyval option \<Rightarrow> pyval" where
  "default_arg d None = d"
| "default_arg d (Some v) = v"

section \<open>The endpoint and its requests\<close>

text \<open>
  A remote unit as the framework hands it over: its name and the relation it belongs to.
  \<^verbatim>\<open>unit.relation.to_publish\<close> is the outbound data of that relation, so two units of one
  relation share it.
\<close>

record remote_unit =
  unit_name :: string
  relation_id :: nat

text \<open>\<^verbatim>\<open>class IntegrationRequest\<close>: a view of one unit; its only attribute is \<^verbatim>\<open>_unit\<close>.\<close>

datatype IntegrationRequest = IntegrationRequest (the_unit: remote_unit)

text \<open>
  The state an \<^verbatim>\<open>OpenStackIntegrationProvides\<close> instance works on:
  \<^item> \<open>endpoint_name\<close>, \<open>all_joined_units\<close>: what the framework's \<^verbatim>\<open>Endpoint\<close> base class
    reports (the joined units in join order);
  \<^item> \<open>cached_requests\<close>: the instance attribute \<^verbatim>\<open>_all_requests\<close>; \<open>None\<close> while
    \<^verbatim>\<open>hasattr(self, '_all_requests')\<close> is false;
  \<^item> \<open>flags\<close>: the framework's set flags, by name;
  \<^item> \<open>to_publish\<close>: the outbound data of each relation, by relation id.
\<close>

record provides =
  endpoint_name :: string
  all_joined_units :: "remote_unit list"
  cached_requests :: "IntegrationRequest list option"
  flags :: "string set"
  to_publish :: "nat \<Rightarrow> pydict"

subsection \<open>Framework operations\<close>

text \<open>
  \<^verbatim>\<open>Endpoint.expand_name\<close>, \<^verbatim>\<open>set_flag\<close>, \<^verbatim>\<open>clear_flag\<close> and \<^verbatim>\<open>toggle_flag\<close> belong to
  charms.reactive: a short flag name is prefixed with \<^verbatim>\<open>endpoint.<endpoint_name>.\<close>, and
  \<^verbatim>\<open>toggle_flag(flag, cond)\<close> sets the flag when \<^verbatim>\<open>cond\<close> holds and clears it otherwise.
\<close>

definition expand_name :: "provides \<Rightarrow> string \<Rightarrow> string" where
  "expand_name s flag = ''endpoint.'' @ endpoint_name s @ ''.'' @ flag"

definition set_flag :: "string \<Rightarrow> provides \<Rightarrow> provides" where
  "set_flag flag s = s\<lparr>flags := insert flag (flags s)\<rparr>"

definition clear_flag :: "string \<Rightarrow> provides \<Rightarrow> provides" where
  "clear_flag flag s = s\<lparr>flags := flags s - {flag}\<rparr>"

definition toggle_flag :: "string \<Rightarrow> bool \<Rightarrow> provides \<Rightarrow> provides" where
  "toggle_flag flag should_set s = (if should_set then set_flag flag s else clear_flag flag s)"

subsection \<open>IntegrationRequest\<close>

text \<open>\<^verbatim>\<open>_to_publish\<close>: \<^verbatim>\<open>self._unit.relation.to_publish\<close>.\<close>

definition request_to_publish :: "provides \<Rightarrow> IntegrationRequest \<Rightarrow> pydict" where
  "request_to_publish s req = to_publish s (relation_id (the_unit req))"

text \<open>\<^verbatim>\<open>self._to_publish.update({...})\<close>, the write every setter ends in.\<close>

definition publish :: "provides \<Rightarrow> IntegrationRequest \<Rightarrow> pydict \<Rightarrow> provides" where
  "publish s req kvs =
     s\<lparr>to_publish := (to_publish s)
        (relation_id (the_unit req) := dict_update (request_to_publish s req) kvs)\<rparr>"

text \<open>\<^verbatim>\<open>has_credentials\<close>: \<^verbatim>\<open>'credentials' in self._to_publish\<close>.\<close>

definition has_credentials :: "provides \<Rightarrow> IntegrationRequest \<Rightarrow> bool" where
  "has_credentials s req = dict_contains (request_to_publish s req) ''credentials''"

text \<open>\<^verbatim>\<open>is_changed\<close>: \<^verbatim>\<open>not self.has_credentials\<close>.\<close>

definition is_changed :: "provides \<Rightarrow> IntegrationRequest \<Rightarrow> bool" where
  "is_changed s req = (\<not> has_credentials s req)"

definition request_unit_name :: "IntegrationRequest \<Rightarrow> string" where
  "request_unit_name req = unit_name (the_unit req)"

text \<open>
  \<^verbatim>\<open>set_credentials\<close>: eight positional parameters, the catch-all \<^verbatim>\<open>*_\<close> (here \<open>extras\<close>,
  the positional arguments past the eighth), and six keyword-only parameters that
  default to \<^verbatim>\<open>None\<close>. The published dict lists the keys in the source's order.
\<close>

definition set_credentials ::
  "provides \<Rightarrow> IntegrationRequest \<Rightarrow> pyval \<Rightarrow> pyval \<Rightarrow> pyval \<Rightarrow> pyval \<Rightarrow> pyval \<Rightarrow> pyval \<Rightarrow>
   pyval \<Rightarrow> pyval \<Rightarrow> pyval list \<Rightarrow> pyval option \<Rightarrow> pyval option \<Rightarrow> pyval option \<Rightarrow>
   pyval option \<Rightarrow> pyval option \<Rightarrow> pyval option \<Rightarrow> provides" where
  "set_credentials s req auth_url region username password user_domain_name
     project_domain_name project_name endpoint_tls_ca extras
     domain_id domain_name project_id project_domain_id user_domain_id version =
     publish s req
       [(''auth_url'', auth_url),
        (''region'', region),
        (''username'', username),
        (''password'', password),
        (''domain_id'', default_arg PNone domain_id),
        (''domain_name'', default_arg PNone domain_name),
        (''endpoint_tls_ca'', endpoint_tls_ca),
        (''project_domain_name'', project_domain_name),
        (''project_domain_id'', default_arg PNone project_domain_id),
        (''project_id'', default_arg PNone project_id),
        (''project_name'', project_name),
        (''user_domain_id'', default_arg PNone user_domain_id),
        (''user_domain_name'', user_domain_name),
        (''version'', default_arg PNone version)]"

text \<open>
  \<^verbatim>\<open>set_lbaas_config\<close>: four required parameters, then \<^verbatim>\<open>has_octavia=None\<close>,
  \<^verbatim>\<open>lb_enabled=None\<close> and \<^verbatim>\<open>internal_lb=False\<close>.
\<close>

definition set_lbaas_config ::
  "provides \<Rightarrow> IntegrationRequest \<Rightarrow> pyval \<Rightarrow> pyval \<Rightarrow> pyval \<Rightarrow> pyval \<Rightarrow>
   pyval option \<Rightarrow> pyval option \<Rightarrow> pyval option \<Rightarrow> provides" where
  "set_lbaas_config s req subnet_id floating_network_id lb_method manage_security_groups
     has_octavia lb_enabled internal_lb =
     publish s req
       [(''subnet_id'', subnet_id),
        (''floating_network_id'', floating_network_id),
        (''lb_method'', lb_method),
        (''internal_lb'', default_arg (PBool False) internal_lb),
        (''manage_security_groups'', manage_security_groups),
        (''has_octavia'', default_arg PNone has_octavia),
        (''lb_enabled'', default_arg PNone lb_enabled)]"

definition set_block_storage_config ::
  "provides \<Rightarrow> IntegrationRequest \<Rightarrow> pyval \<Rightarrow> pyval \<Rightarrow> pyval \<Rightarrow> provides" where
  "set_block_storage_config s req bs_version trust_device_path ignore_volume_az =
     publish s req
       [(''bs_version'', bs_version),
        (''trust_device_path'', trust_device_path),
        (''ignore_volume_az'', ignore_volume_az)]"

text \<open>
  \<^verbatim>\<open>proxy_config\<close>: reads the key back from the request's own outbound data; \<^verbatim>\<open>{}\<close> when
  the value is falsy or not a dict, else a new dict with every falsy value replaced by
  the empty string.
\<close>

definition proxy_config :: "provides \<Rightarrow> IntegrationRequest \<Rightarrow> pyval" where
  "proxy_config s req =
     (let data = dict_get (request_to_publish s req) ''proxy_config'' in
      if \<not> truthy data \<or> \<not> isinstance_dict data then PDict []
      else PDict (dict_comprehension (\<lambda>v. py_or v (PStr [])) [] (dict_items data)))"

definition set_proxy_config :: "provides \<Rightarrow> IntegrationRequest \<Rightarrow> pyval \<Rightarrow> provides" where
  "set_proxy_config s req config = publish s req [(''proxy_config'', config)]"

subsection \<open>OpenStackIntegrationProvides\<close>

text \<open>
  \<^verbatim>\<open>all_requests\<close>: builds one request per joined unit on the first access and stores the
  list in \<^verbatim>\<open>_all_requests\<close>; later accesses return the stored list. The property
  returns a value and may change the instance, so the model returns both.
\<close>

definition all_requests :: "provides \<Rightarrow> IntegrationRequest list \<times> provides" where
  "all_requests s =
     (case cached_requests s of
        None \<Rightarrow>
          (let rs = map IntegrationRequest (all_joined_units s)
           in (rs, s\<lparr>cached_requests := Some rs\<rparr>))
      | Some rs \<Rightarrow> (rs, s))"

text \<open>\<^verbatim>\<open>new_requests\<close>: \<^verbatim>\<open>list(filter(attrgetter('is_changed'), self.all_requests))\<close>.\<close>

definition new_requests :: "provides \<Rightarrow> IntegrationRequest list \<times> provides" where
  "new_requests s =
     (let (rs, s') = all_requests s in (filter (is_changed s') rs, s'))"

text \<open>
  \<^verbatim>\<open>check_requests\<close>, the handler the framework runs while the endpoint's \<^verbatim>\<open>changed\<close> flag
  is set (\<^verbatim>\<open>@when('endpoint.{endpoint_name}.changed')\<close>): the arguments of \<^verbatim>\<open>toggle_flag\<close>
  are evaluated left to right, then the \<^verbatim>\<open>changed\<close> flag is cleared.
\<close>

definition check_requests :: "provides \<Rightarrow> provides" where
  "check_requests s =
     (let pending = expand_name s ''requests-pending'';
          (rs, s1) = all_requests s;
          s2 = toggle_flag pending (length rs > 0) s1
      in clear_flag (expand_name s2 ''changed'') s2)"

definition mark_completed :: "provides \<Rightarrow> provides" where
  "mark_completed s = clear_flag (expand_name s ''requests-pending'') s"

text \<open>
  An endpoint instance as the framework creates it: no \<^verbatim>\<open>_all_requests\<close> attribute yet.
  The flags and the relation data are the framework's and outlive the instance.
\<close>

definition new_provides ::
  "string \<Rightarrow> remote_unit list \<Rightarrow> string set \<Rightarrow> (nat \<Rightarrow> pydict) \<Rightarrow> provides" where
  "new_provides name units fl data =
     \<lparr>endpoint_name = name, all_joined_units = units, cached_requests = None,
      flags = fl, to_publish = data\<rparr>"

section \<open>Properties of the dict operations\<close>

lemma dict_contains_set: "dict_contains (dict_set k v d) k' = (k' = k \<or> dict_contains d k')"
  by (induction d) (auto split: if_splits)

lemma dict_get_set: "dict_get (dict_set k v d) k' = (if k' = k then v else dict_get d k')"
  by (induction d) auto

lemma dict_contains_update:
  "dict_contains (dict_update d kvs) k = (dict_contains d k \<or> dict_contains kvs k)"
  by (induction d kvs rule: dict_update.induct) (auto simp: dict_contains_set)

lemma dict_get_absent: "\<not> dict_contains d k \<Longrightarrow> dict_get d k = PNone"
  by (induction d) auto

lemma dict_set_fresh: "\<not> dict_contains d k \<Longrightarrow> dict_set k v d = d @ [(k, v)]"
  by (induction d) auto

lemma dict_contains_append:
  "dict_contains (d @ e) k = (dict_contains d k \<or> dict_contains e k)"
  by (induction d) auto

text \<open>
  On items with distinct keys that the accumulator does not hold yet, the comprehension
  appends one entry per item, in order.
\<close>

lemma dict_comprehension_distinct:
  "distinct (map fst kvs) \<Longrightarrow> list_all (\<lambda>(k, v). \<not> dict_contains acc k) kvs \<Longrightarrow>
   dict_comprehension f acc kvs = acc @ map (\<lambda>(k, v). (k, f v)) kvs"
proof (induction kvs arbitrary: acc)
  case Nil
  then show ?case by simp
next
  case (Cons kv kvs)
  obtain k v where kv: "kv = (k, v)" by (cases kv)
  from Cons.prems kv have fresh: "\<not> dict_contains acc k" by simp
  have rest: "list_all (\<lambda>(k', v'). \<not> dict_contains (acc @ [(k, f v)]) k') kvs"
    using Cons.prems kv by (force simp: list_all_iff dict_contains_append)
  have "dict_comprehension f (acc @ [(k, f v)]) kvs
        = (acc @ [(k, f v)]) @ map (\<lambda>(k, v). (k, f v)) kvs"
    using Cons.prems rest by (intro Cons.IH) simp_all
  then show ?case using fresh kv by (simp add: dict_set_fresh)
qed

section \<open>Properties of the request setters and readers\<close>

lemma request_to_publish_publish:
  "request_to_publish (publish s req kvs) req = dict_update (request_to_publish s req) kvs"
  by (simp add: publish_def request_to_publish_def)

lemma has_credentials_publish:
  "has_credentials (publish s req kvs) req' =
     (has_credentials s req' \<or>
      (relation_id (the_unit req') = relation_id (the_unit req) \<and>
       dict_contains kvs ''credentials''))"
  by (auto simp: has_credentials_def publish_def request_to_publish_def dict_contains_update)

lemma is_changed_cached_requests:
  "is_changed (s\<lparr>cached_requests := c\<rparr>) = is_changed s"
  by (rule ext) (simp add: is_changed_def has_credentials_def request_to_publish_def)

text \<open>What \<^verbatim>\<open>proxy_config\<close> reads right after \<^verbatim>\<open>set_proxy_config\<close> wrote the dict \<open>m\<close>.\<close>

lemma proxy_config_read_back:
  "proxy_config (set_proxy_config s req (PDict m)) req
     = (if m = [] then PDict []
        else PDict (dict_comprehension (\<lambda>v. py_or v (PStr [])) [] m))"
proof -
  have "dict_get (request_to_publish (set_proxy_config s req (PDict m)) req) ''proxy_config''
          = PDict m"
    by (simp add: set_proxy_config_def request_to_publish_publish dict_get_set)
  then show ?thesis by (simp add: proxy_config_def Let_def)
qed

lemma proxy_config_read_back_distinct:
  assumes "distinct (map fst m)"
  shows "proxy_config (set_proxy_config s req (PDict m)) req
           = PDict (map (\<lambda>(k, v). (k, py_or v (PStr []))) m)"
proof -
  have "dict_comprehension (\<lambda>v. py_or v (PStr [])) [] m
          = [] @ map (\<lambda>(k, v). (k, py_or v (PStr []))) m"
    using assms by (intro dict_comprehension_distinct) (simp_all add: list_all_iff split_def)
  then show ?thesis by (simp add: proxy_config_read_back)
qed

subsection \<open>Credentials and the changed state\<close>

text \<open>
  C1, at a request whose outbound data is still empty: the claim says that after
  \<^verbatim>\<open>set_credentials\<close> with the eight required arguments \<^verbatim>\<open>has_credentials\<close> is true and
  \<^verbatim>\<open>is_changed\<close> false. \<^verbatim>\<open>set_credentials\<close> writes fourteen keys, none of them
  \<^verbatim>\<open>credentials\<close>, the key \<^verbatim>\<open>has_credentials\<close> looks for: after the call
  \<^verbatim>\<open>has_credentials\<close> is still false and \<^verbatim>\<open>is_changed\<close> still true, although the
  record is in the outbound data.
\<close>

theorem set_credentials_not_seen_by_has_credentials:
  "let req = IntegrationRequest \<lparr>unit_name = ''kubernetes-master/0'', relation_id = 0\<rparr>;
       s = new_provides ''clients'' [the_unit req] {} (\<lambda>_. []);
       s' = set_credentials s req
              (PStr ''http://keystone:5000/v3'') (PStr ''RegionOne'') (PStr ''admin'')
              (PStr ''secret'') (PStr ''admin_domain'') (PStr ''admin_domain'')
              (PStr ''admin'') (PStr []) [] None None None None None None
   in has_credentials s' req = False \<and> is_changed s' req = True
      \<and> dict_get (request_to_publish s' req) ''auth_url'' = PStr ''http://keystone:5000/v3''"
  by (simp add: Let_def new_provides_def set_credentials_def publish_def
      request_to_publish_def has_credentials_def is_changed_def)

text \<open>
  For every state, request and argument list, \<^verbatim>\<open>set_credentials\<close> leaves
  \<^verbatim>\<open>has_credentials\<close> of every request as it was.
\<close>

theorem set_credentials_preserves_has_credentials:
  "has_credentials
     (set_credentials s req auth_url region username password user_domain_name
        project_domain_name project_name endpoint_tls_ca extras
        domain_id domain_name project_id project_domain_id user_domain_id version) req'
   = has_credentials s req'"
  by (simp add: set_credentials_def has_credentials_publish)

text \<open>
  C9: \<^verbatim>\<open>set_credentials\<close> ignores the positional arguments past the eighth. Whatever
  the list of extras, the call returns (it is a total function of them) and leaves the
  same state, hence the same published record, as the call without extras.
\<close>

theorem set_credentials_ignores_extras:
  "set_credentials s req auth_url region username password user_domain_name
     project_domain_name project_name endpoint_tls_ca extras
     domain_id domain_name project_id project_domain_id user_domain_id version
   = set_credentials s req auth_url region username password user_domain_name
       project_domain_name project_name endpoint_tls_ca []
       domain_id domain_name project_id project_domain_id user_domain_id version"
  by (simp add: set_credentials_def)

text \<open>
  C10: \<^verbatim>\<open>set_lbaas_config\<close> is one \<^verbatim>\<open>update\<close> with all seven keys. Whatever the optional
  arguments, the seven keys are in the outbound data afterwards and the four required
  fields read back as given. Each optional parameter on its own, whatever the other two
  are: \<^verbatim>\<open>has_octavia\<close> left out reads back as \<^verbatim>\<open>None\<close> under its own key (present, not
  absent), and so does \<^verbatim>\<open>lb_enabled\<close>; \<^verbatim>\<open>internal_lb\<close> left out reads back as \<^verbatim>\<open>False\<close>;
  a supplied value reads back as supplied.
\<close>

theorem set_lbaas_config_publishes_seven_fields:
  "set_lbaas_config s req subnet_id floating_network_id lb_method manage_security_groups
     None None None
     = publish s req
         [(''subnet_id'', subnet_id), (''floating_network_id'', floating_network_id),
          (''lb_method'', lb_method), (''internal_lb'', PBool False),
          (''manage_security_groups'', manage_security_groups),
          (''has_octavia'', PNone), (''lb_enabled'', PNone)]
   \<and> map (dict_contains (request_to_publish
        (set_lbaas_config s req subnet_id floating_network_id lb_method
           manage_security_groups has_octavia lb_enabled internal_lb) req))
       [''subnet_id'', ''floating_network_id'', ''lb_method'', ''internal_lb'',
        ''manage_security_groups'', ''has_octavia'', ''lb_enabled'']
     = [True, True, True, True, True, True, True]
   \<and> map (dict_get (request_to_publish
        (set_lbaas_config s req subnet_id floating_network_id lb_method
           manage_security_groups None None None) req))
       [''subnet_id'', ''floating_network_id'', ''lb_method'', ''internal_lb'',
        ''manage_security_groups'', ''has_octavia'', ''lb_enabled'']
     = [subnet_id, floating_network_id, lb_method, PBool False, manage_security_groups,
        PNone, PNone]
   \<and> map (dict_get (request_to_publish
        (set_lbaas_config s req subnet_id floating_network_id lb_method
           manage_security_groups has_octavia lb_enabled internal_lb) req))
       [''subnet_id'', ''floating_network_id'', ''lb_method'', ''manage_security_groups'']
     = [subnet_id, floating_network_id, lb_method, manage_security_groups]
   \<and> dict_get (request_to_publish
        (set_lbaas_config s req subnet_id floating_network_id lb_method
           manage_security_groups None lb_enabled internal_lb) req) ''has_octavia'' = PNone
   \<and> dict_get (request_to_publish
        (set_lbaas_config s req subnet_id floating_network_id lb_method
           manage_security_groups (Some v) lb_enabled internal_lb) req) ''has_octavia'' = v
   \<and> dict_get (request_to_publish
        (set_lbaas_config s req subnet_id floating_network_id lb_method
           manage_security_groups has_octavia None internal_lb) req) ''lb_enabled'' = PNone
   \<and> dict_get (request_to_publish
        (set_lbaas_config s req subnet_id floating_network_id lb_method
           manage_security_groups has_octavia (Some v) internal_lb) req) ''lb_enabled'' = v
   \<and> dict_get (request_to_publish
        (set_lbaas_config s req subnet_id floating_network_id lb_method
           manage_security_groups has_octavia lb_enabled None) req) ''internal_lb''
       = PBool False
   \<and> dict_get (request_to_publish
        (set_lbaas_config s req subnet_id floating_network_id lb_method
           manage_security_groups has_octavia lb_enabled (Some v)) req) ''internal_lb'' = v"
  by (simp add: set_lbaas_config_def request_to_publish_publish dict_contains_set dict_get_set)

subsection \<open>Reading and writing the proxy configuration\<close>

text \<open>
  C7: when the request's outbound data has no \<^verbatim>\<open>proxy_config\<close> key, or the value under
  the key is not a dict, \<^verbatim>\<open>proxy_config\<close> returns the empty dict: a dict, not \<^verbatim>\<open>None\<close>,
  and the read has no failing branch.
\<close>

theorem proxy_config_absent_or_malformed:
  "\<not> dict_contains (request_to_publish s req) ''proxy_config''
     \<or> \<not> isinstance_dict (dict_get (request_to_publish s req) ''proxy_config'')
   \<Longrightarrow> proxy_config s req = PDict [] \<and> proxy_config s req \<noteq> PNone"
  by (auto simp: proxy_config_def Let_def dict_get_absent)

theorem proxy_config_absent_or_malformed_witness:
  "(let req = IntegrationRequest \<lparr>unit_name = ''kubernetes-master/0'', relation_id = 0\<rparr>;
        s = new_provides ''clients'' [the_unit req] {} (\<lambda>_. [(''auth_url'', PStr ''x'')])
    in \<not> dict_contains (request_to_publish s req) ''proxy_config''
       \<and> proxy_config s req = PDict [])
   \<and> (let req = IntegrationRequest \<lparr>unit_name = ''kubernetes-master/0'', relation_id = 0\<rparr>;
          s = new_provides ''clients'' [the_unit req] {}
                (\<lambda>_. [(''proxy_config'', PStr ''http://proxy.example:3128'')])
      in dict_contains (request_to_publish s req) ''proxy_config''
         \<and> \<not> isinstance_dict (dict_get (request_to_publish s req) ''proxy_config'')
         \<and> proxy_config s req = PDict [])"
  using
    proxy_config_absent_or_malformed
      [of "new_provides ''clients''
             [\<lparr>unit_name = ''kubernetes-master/0'', relation_id = 0\<rparr>] {}
             (\<lambda>_. [(''auth_url'', PStr ''x'')])"
          "IntegrationRequest \<lparr>unit_name = ''kubernetes-master/0'', relation_id = 0\<rparr>"]
    proxy_config_absent_or_malformed
      [of "new_provides ''clients''
             [\<lparr>unit_name = ''kubernetes-master/0'', relation_id = 0\<rparr>] {}
             (\<lambda>_. [(''proxy_config'', PStr ''http://proxy.example:3128'')])"
          "IntegrationRequest \<lparr>unit_name = ''kubernetes-master/0'', relation_id = 0\<rparr>"]
  by (simp add: Let_def new_provides_def request_to_publish_def)

text \<open>
  C8: for a dict \<open>m\<close> (distinct keys) whose values are strings or \<^verbatim>\<open>None\<close>, reading
  \<^verbatim>\<open>proxy_config\<close> after \<^verbatim>\<open>set_proxy_config(m)\<close> returns \<open>m\<close> with every \<^verbatim>\<open>None\<close> replaced
  by the empty string and every other entry as it was, in the same order.
\<close>

theorem proxy_config_round_trip:
  assumes "distinct (map fst m)"
    and "list_all (\<lambda>(k, v). v = PNone \<or> (\<exists>str. v = PStr str)) m"
  shows "proxy_config (set_proxy_config s req (PDict m)) req
           = PDict (map (\<lambda>(k, v). (k, if v = PNone then PStr [] else v)) m)"
proof -
  have "map (\<lambda>(k, v). (k, py_or v (PStr []))) m
          = map (\<lambda>(k, v). (k, if v = PNone then PStr [] else v)) m"
    using assms(2) by (induction m) (auto simp: py_or_def)
  then show ?thesis using proxy_config_read_back_distinct [OF assms(1)] by simp
qed

theorem proxy_config_round_trip_witness:
  "proxy_config
     (set_proxy_config
        (new_provides ''clients'' [\<lparr>unit_name = ''kubernetes-master/0'', relation_id = 0\<rparr>]
           {} (\<lambda>_. []))
        (IntegrationRequest \<lparr>unit_name = ''kubernetes-master/0'', relation_id = 0\<rparr>)
        (PDict [(''host'', PStr ''proxy.example''), (''port'', PNone)]))
     (IntegrationRequest \<lparr>unit_name = ''kubernetes-master/0'', relation_id = 0\<rparr>)
   = PDict [(''host'', PStr ''proxy.example''), (''port'', PStr [])]"
  using proxy_config_round_trip
    [of "[(''host'', PStr ''proxy.example''), (''port'', PNone)]"
        "new_provides ''clients'' [\<lparr>unit_name = ''kubernetes-master/0'', relation_id = 0\<rparr>]
           {} (\<lambda>_. [])"
        "IntegrationRequest \<lparr>unit_name = ''kubernetes-master/0'', relation_id = 0\<rparr>"]
  by simp

text \<open>
  For a dict with distinct keys and any values, the read after the write replaces every
  falsy value (\<^verbatim>\<open>None\<close>, \<^verbatim>\<open>False\<close>, \<^verbatim>\<open>0\<close>, the empty string, list or dict) by the empty
  string and keeps the truthy ones.
\<close>

theorem proxy_config_round_trip_any_values:
  "distinct (map fst m) \<Longrightarrow>
   proxy_config (set_proxy_config s req (PDict m)) req
     = PDict (map (\<lambda>(k, v). (k, if truthy v then v else PStr [])) m)"
  using proxy_config_read_back_distinct [of m s req] by (simp add: py_or_def [abs_def])

theorem proxy_config_round_trip_any_values_witness:
  "proxy_config
     (set_proxy_config
        (new_provides ''clients'' [\<lparr>unit_name = ''kubernetes-master/0'', relation_id = 0\<rparr>]
           {} (\<lambda>_. []))
        (IntegrationRequest \<lparr>unit_name = ''kubernetes-master/0'', relation_id = 0\<rparr>)
        (PDict [(''host'', PStr ''proxy.example''), (''port'', PInt 0),
                (''verify'', PBool False)]))
     (IntegrationRequest \<lparr>unit_name = ''kubernetes-master/0'', relation_id = 0\<rparr>)
   = PDict [(''host'', PStr ''proxy.example''), (''port'', PStr []), (''verify'', PStr [])]"
  using proxy_config_round_trip_any_values
    [of "[(''host'', PStr ''proxy.example''), (''port'', PInt 0), (''verify'', PBool False)]"
        "new_provides ''clients'' [\<lparr>unit_name = ''kubernetes-master/0'', relation_id = 0\<rparr>]
           {} (\<lambda>_. [])"
        "IntegrationRequest \<lparr>unit_name = ''kubernetes-master/0'', relation_id = 0\<rparr>"]
  by simp

section \<open>Properties of the endpoint\<close>

lemma expand_name_pending_changed:
  "expand_name s ''requests-pending'' \<noteq> expand_name s ''changed''"
  by (simp add: expand_name_def)

text \<open>
  C4: on an instance whose request list is not computed yet (no \<^verbatim>\<open>_all_requests\<close>
  attribute), or was computed from the units that are joined now, \<^verbatim>\<open>all_requests\<close>
  returns one request per joined unit, each wrapping its unit, in the order the framework
  reports the units; the list is as long as the list of units, and it is empty exactly
  when no unit is joined.
\<close>

theorem all_requests_one_per_joined_unit:
  "cached_requests s = None
     \<or> cached_requests s = Some (map IntegrationRequest (all_joined_units s)) \<Longrightarrow>
   fst (all_requests s) = map IntegrationRequest (all_joined_units s)
   \<and> length (fst (all_requests s)) = length (all_joined_units s)
   \<and> map the_unit (fst (all_requests s)) = all_joined_units s
   \<and> (fst (all_requests s) = []) = (all_joined_units s = [])"
  by (auto simp: all_requests_def Let_def comp_def)

theorem all_requests_one_per_joined_unit_witness:
  "(let u0 = \<lparr>unit_name = ''kubernetes-master/0'', relation_id = 0\<rparr>;
        u1 = \<lparr>unit_name = ''kubernetes-worker/3'', relation_id = 1\<rparr>;
        s = new_provides ''clients'' [u0, u1] {} (\<lambda>_. [])
    in cached_requests s = None
       \<and> fst (all_requests s) = [IntegrationRequest u0, IntegrationRequest u1]
       \<and> length (fst (all_requests s)) = 2)
   \<and> fst (all_requests (new_provides ''clients'' [] {} (\<lambda>_. []))) = []"
  using
    all_requests_one_per_joined_unit
      [of "new_provides ''clients''
             [\<lparr>unit_name = ''kubernetes-master/0'', relation_id = 0\<rparr>,
              \<lparr>unit_name = ''kubernetes-worker/3'', relation_id = 1\<rparr>] {} (\<lambda>_. [])"]
    all_requests_one_per_joined_unit [of "new_provides ''clients'' [] {} (\<lambda>_. [])"]
  by (simp add: Let_def new_provides_def)

text \<open>
  C5: \<^verbatim>\<open>all_requests\<close> is memoized per instance. After one access, a second access
  returns the same list and leaves the instance as it is; and it still returns that list,
  without reading the joined units, after the joined units, the flags and the relation
  data have been replaced by any others.
\<close>

theorem all_requests_memoized:
  "all_requests (snd (all_requests s)) = (fst (all_requests s), snd (all_requests s))
   \<and> all_requests
       (snd (all_requests s)\<lparr>all_joined_units := units', flags := flags', to_publish := data'\<rparr>)
     = (fst (all_requests s),
        snd (all_requests s)\<lparr>all_joined_units := units', flags := flags', to_publish := data'\<rparr>)"
  by (simp add: all_requests_def Let_def split: option.splits)

text \<open>
  C3, as the code has it: \<^verbatim>\<open>new_requests\<close> is the list \<^verbatim>\<open>all_requests\<close> filtered by
  \<^verbatim>\<open>is_changed\<close> (the negation of \<^verbatim>\<open>has_credentials\<close>), order kept. It leaves the flags,
  the relation data, the joined units and the endpoint name untouched; its one effect on
  the instance is that of the \<^verbatim>\<open>all_requests\<close> access inside it, which stores the request
  list in \<^verbatim>\<open>_all_requests\<close>: a second \<^verbatim>\<open>new_requests\<close> returns the same list and changes
  nothing.
\<close>

theorem new_requests_filters_all_requests:
  "new_requests s =
     (filter (is_changed s) (fst (all_requests s)),
      s\<lparr>cached_requests := Some (fst (all_requests s))\<rparr>)
   \<and> is_changed s = (\<lambda>r. \<not> has_credentials s r)
   \<and> snd (new_requests s) = snd (all_requests s)
   \<and> new_requests (snd (new_requests s)) = new_requests s
   \<and> flags (snd (new_requests s)) = flags s
   \<and> to_publish (snd (new_requests s)) = to_publish s
   \<and> all_joined_units (snd (new_requests s)) = all_joined_units s
   \<and> endpoint_name (snd (new_requests s)) = endpoint_name s"
proof -
  have eq: "new_requests s =
     (filter (is_changed s) (fst (all_requests s)),
      s\<lparr>cached_requests := Some (fst (all_requests s))\<rparr>)"
    by (cases "cached_requests s")
      (simp_all add: new_requests_def all_requests_def Let_def is_changed_cached_requests)
  have neg: "is_changed s = (\<lambda>r. \<not> has_credentials s r)"
    by (rule ext) (simp add: is_changed_def)
  have same: "s\<lparr>cached_requests := Some (fst (all_requests s))\<rparr> = snd (all_requests s)"
    by (cases "cached_requests s") (simp_all add: all_requests_def Let_def)
  have again: "new_requests (snd (new_requests s)) = new_requests s"
    by (cases "cached_requests s")
      (simp_all add: new_requests_def all_requests_def Let_def is_changed_cached_requests)
  show ?thesis using neg again by (simp add: eq same [symmetric])
qed

text \<open>
  C3 as stated fails: on a new instance with one joined unit, \<^verbatim>\<open>new_requests\<close> changes
  the instance (it stores the request list), and the change shows: when a second unit
  joins afterwards, \<^verbatim>\<open>all_requests\<close> answers with one request where the untouched
  instance answers with two.
\<close>

theorem new_requests_side_effect_counterexample:
  "let u0 = \<lparr>unit_name = ''kubernetes-master/0'', relation_id = 0\<rparr>;
       u1 = \<lparr>unit_name = ''kubernetes-worker/3'', relation_id = 1\<rparr>;
       s = new_provides ''clients'' [u0] {} (\<lambda>_. []);
       s' = snd (new_requests s)
   in s' \<noteq> s
      \<and> cached_requests s = None
      \<and> cached_requests s' = Some [IntegrationRequest u0]
      \<and> fst (all_requests (s\<lparr>all_joined_units := [u0, u1]\<rparr>))
          = [IntegrationRequest u0, IntegrationRequest u1]
      \<and> fst (all_requests (s'\<lparr>all_joined_units := [u0, u1]\<rparr>)) = [IntegrationRequest u0]"
  by (simp add: Let_def new_requests_def all_requests_def new_provides_def)

text \<open>
  The flags after \<^verbatim>\<open>check_requests\<close>: the \<^verbatim>\<open>requests-pending\<close> flag is set exactly when
  \<^verbatim>\<open>all_requests\<close> is non-empty, the \<^verbatim>\<open>changed\<close> flag is cleared, every other flag and the
  relation data stay as they were.
\<close>

lemma check_requests_flags:
  "flags (check_requests s) =
     (if fst (all_requests s) \<noteq> []
      then insert (expand_name s ''requests-pending'') (flags s)
      else flags s - {expand_name s ''requests-pending''}) - {expand_name s ''changed''}
   \<and> (expand_name s ''requests-pending'' \<in> flags (check_requests s))
       = (fst (all_requests s) \<noteq> [])
   \<and> expand_name s ''changed'' \<notin> flags (check_requests s)
   \<and> to_publish (check_requests s) = to_publish s"
  by (auto simp: check_requests_def all_requests_def toggle_flag_def set_flag_def
      clear_flag_def expand_name_def Let_def split: option.splits)

lemma new_requests_all_changed:
  "list_all (is_changed s) (fst (all_requests s)) \<Longrightarrow>
   fst (new_requests s) = fst (all_requests s)"
  by (cases "cached_requests s")
    (simp_all add: new_requests_def all_requests_def Let_def is_changed_cached_requests
      list_all_iff)


text \<open>
  Where no request of the endpoint has credentials, \<^verbatim>\<open>new_requests\<close> is all of
  \<^verbatim>\<open>all_requests\<close>, and \<^verbatim>\<open>check_requests\<close> sets the \<^verbatim>\<open>requests-pending\<close> flag exactly when
  \<^verbatim>\<open>new_requests\<close> is non-empty.
\<close>

theorem check_requests_pending_when_all_changed:
  "list_all (is_changed s) (fst (all_requests s)) \<Longrightarrow>
   (expand_name s ''requests-pending'' \<in> flags (check_requests s))
     = (fst (new_requests s) \<noteq> [])"
proof -
  assume a: "list_all (is_changed s) (fst (all_requests s))"
  have "(expand_name s ''requests-pending'' \<in> flags (check_requests s))
          = (fst (all_requests s) \<noteq> [])"
    by (simp add: check_requests_flags expand_name_pending_changed)
  then show ?thesis using new_requests_all_changed [OF a] by simp
qed

theorem check_requests_pending_when_all_changed_witness:
  "let u0 = \<lparr>unit_name = ''kubernetes-master/0'', relation_id = 0\<rparr>;
       s = new_provides ''clients'' [u0] {''endpoint.clients.changed''} (\<lambda>_. [])
   in list_all (is_changed s) (fst (all_requests s))
      \<and> fst (new_requests s) = [IntegrationRequest u0]
      \<and> expand_name s ''requests-pending'' \<in> flags (check_requests s)"
  using check_requests_pending_when_all_changed
    [of "new_provides ''clients''
           [\<lparr>unit_name = ''kubernetes-master/0'', relation_id = 0\<rparr>]
           {''endpoint.clients.changed''} (\<lambda>_. [])"]
  by (simp add: Let_def new_provides_def new_requests_def all_requests_def is_changed_def
      has_credentials_def request_to_publish_def)

text \<open>
  C6: \<^verbatim>\<open>mark_completed\<close> removes the \<^verbatim>\<open>requests-pending\<close> flag and changes nothing else:
  the other flags, the relation data, the stored request list and the joined units are
  as before, and so are \<^verbatim>\<open>has_credentials\<close> and \<^verbatim>\<open>is_changed\<close> of every request.
\<close>

theorem mark_completed_only_clears_pending:
  "mark_completed s = s\<lparr>flags := flags s - {expand_name s ''requests-pending''}\<rparr>
   \<and> expand_name s ''requests-pending'' \<notin> flags (mark_completed s)
   \<and> to_publish (mark_completed s) = to_publish s
   \<and> cached_requests (mark_completed s) = cached_requests s
   \<and> all_joined_units (mark_completed s) = all_joined_units s
   \<and> has_credentials (mark_completed s) req = has_credentials s req
   \<and> is_changed (mark_completed s) req = is_changed s req"
  by (simp add: mark_completed_def clear_flag_def is_changed_def has_credentials_def
      request_to_publish_def)

end
